theory Spec2Isabelle
  imports Main
begin

section \<open>Errors and requests\<close>

text \<open>
  A rejected promise carries an error value. An error raised by the HTTP client has an
  optional \<open>code\<close> and, when the server answered, the status of the response
  (\<open>error.response.status\<close>); \<open>error.response\<close> is undefined on every other error.
\<close>

datatype error =
    AxiosError "string option" "nat option"
  | CircuitOpenError
  | QuorumNotReachedError
  | Error string

fun response_status :: "error \<Rightarrow> nat option" where
  "response_status (AxiosError c r) = r"
| "response_status CircuitOpenError = None"
| "response_status QuorumNotReachedError = None"
| "response_status (Error m) = None"

text \<open>\<open>error.code\<close>, and whether the error carries the configuration of a request.\<close>

fun error_code :: "error \<Rightarrow> string option" where
  "error_code (AxiosError c r) = c"
| "error_code CircuitOpenError = None"
| "error_code QuorumNotReachedError = None"
| "error_code (Error m) = None"

fun has_config :: "error \<Rightarrow> bool" where
  "has_config (AxiosError c r) = True"
| "has_config CircuitOpenError = False"
| "has_config QuorumNotReachedError = False"
| "has_config (Error m) = False"

record request_config =
  reqMethod :: string
  baseURL :: string
  url :: string
  data :: "string option"
  headers :: "(string \<times> string) list"
  timeout :: int

text \<open>
  What one call did: the settled value of its promise, how many times the underlying
  request was sent, and the delays slept between the attempts (milliseconds).
\<close>

text \<open>
  A JavaScript number that is a non-negative integer or \<open>Infinity\<close>, which is what an
  overflowing double-precision product gives.
\<close>

datatype number = Finite nat | Infinity

record 'a outcome =
  result :: "error + 'a"
  attempts :: nat
  delays :: "number list"

text \<open>
  The remote side: the answer to the \<open>k\<close>-th attempt (from 0) of a request, either the
  response data or the error the client raises.
\<close>

type_synonym 'a network = "request_config \<Rightarrow> nat \<Rightarrow> error + 'a"

section \<open>Retry configuration (RestUtility.applyRetry)\<close>

definition INTERNAL_SERVER_ERROR :: nat where
  "INTERNAL_SERVER_ERROR = 500"

text \<open>
  The helpers of the retry package, which is a dependency and not among the sources, as
  the package documents and exports them: by default a request is retried on a network
  error or on a 5xx error of an idempotent request (get, head, options, put, delete). A
  network error has no response and an error code, is not a request that ran into its
  timeout (\<open>ECONNABORTED\<close>), and is allowed by the package's list of codes that must not be
  retried; that list is the parameter \<open>isRetryAllowed\<close>. The method of the failed request,
  \<open>error.config.method\<close>, is the argument \<open>m\<close>.
\<close>

definition SAFE_HTTP_METHODS :: "string list" where
  "SAFE_HTTP_METHODS = [''get'', ''head'', ''options'']"

definition IDEMPOTENT_HTTP_METHODS :: "string list" where
  "IDEMPOTENT_HTTP_METHODS = SAFE_HTTP_METHODS @ [''put'', ''delete'']"

definition isNetworkError :: "(error \<Rightarrow> bool) \<Rightarrow> error \<Rightarrow> bool" where
  "isNetworkError isRetryAllowed err =
     (response_status err = None \<and> error_code err \<noteq> None
      \<and> error_code err \<noteq> Some ''ECONNABORTED'' \<and> isRetryAllowed err)"

definition isRetryableError :: "error \<Rightarrow> bool" where
  "isRetryableError err =
     (error_code err \<noteq> Some ''ECONNABORTED''
      \<and> (case response_status err of None \<Rightarrow> True | Some s \<Rightarrow> 500 \<le> s \<and> s \<le> 599))"

definition isIdempotentRequestError :: "string \<Rightarrow> error \<Rightarrow> bool" where
  "isIdempotentRequestError m err =
     (has_config err \<and> isRetryableError err \<and> m \<in> set IDEMPOTENT_HTTP_METHODS)"

definition isNetworkOrIdempotentRequestError :: "(error \<Rightarrow> bool) \<Rightarrow> string \<Rightarrow> error \<Rightarrow> bool" where
  "isNetworkOrIdempotentRequestError isRetryAllowed m err =
     (isNetworkError isRetryAllowed err \<or> isIdempotentRequestError m err)"

text \<open>
  \<open>retryCondition\<close> of the source. The helper it calls is the parameter \<open>isNetErr\<close>; the
  source passes \<open>axiosRetry.isNetworkOrIdempotentRequestError\<close>. The JavaScript
  \<open>error.response && error.response.status >= 500\<close> is falsy when there is no response.
\<close>

definition retryCondition :: "(error \<Rightarrow> bool) \<Rightarrow> error \<Rightarrow> bool" where
  "retryCondition isNetErr err =
     (isNetErr err \<or>
      (case response_status err of None \<Rightarrow> False | Some s \<Rightarrow> INTERNAL_SERVER_ERROR \<le> s))"

text \<open>
  \<open>retryDelay\<close> of the source: \<open>Math.pow(2, retryCount) * 1000\<close>, in double precision. Up to
  a \<open>retryCount\<close> of 1014 the power and the product are exact (the product is below
  \<open>2^1024\<close>); from 1015 on the product overflows, or the power already has, and the result
  is \<open>Infinity\<close>.
\<close>

definition retryDelay :: "nat \<Rightarrow> number" where
  "retryDelay retryCount =
     (if retryCount \<le> 1014 then Finite (2 ^ retryCount * 1000) else Infinity)"

record retry_options =
  retries :: int
  retryCond :: "error \<Rightarrow> bool"
  retryDel :: "nat \<Rightarrow> number"

record axios_instance =
  defaults :: request_config
  retryOpts :: "retry_options option"

text \<open>
  Client instances are objects: \<open>axios.create\<close> allocates a new one and the retry package
  configures the object it is handed, in place. The store holds every instance created so
  far; a reference is an index into it.
\<close>

type_synonym store = "axios_instance list"

definition axios_create :: "request_config \<Rightarrow> store \<Rightarrow> nat \<times> store" where
  "axios_create config h = (length h, h @ [\<lparr>defaults = config, retryOpts = None\<rparr>])"

definition axiosRetry :: "nat \<Rightarrow> retry_options \<Rightarrow> store \<Rightarrow> store" where
  "axiosRetry inst opts h = h[inst := (h ! inst)\<lparr>retryOpts := Some opts\<rparr>]"

definition applyRetry :: "(error \<Rightarrow> bool) \<Rightarrow> bool \<Rightarrow> int \<Rightarrow> nat \<Rightarrow> store \<Rightarrow> store" where
  "applyRetry isNetErr shouldRetry retryCount inst h =
     (if shouldRetry
      then axiosRetry inst
             \<lparr>retries = retryCount, retryCond = retryCondition isNetErr, retryDel = retryDelay\<rparr> h
      else h)"

section \<open>Sending a request through an instance\<close>

text \<open>
  Modelled from the spec: the retry loop, which the retry package runs and the sources do
  not contain. After a failed attempt, when the error is retryable and retries are left,
  the delay of the next attempt number is slept and the request is sent again (section
  4.3); \<open>retries\<close> counts the retries after the first attempt, as in the end-to-end
  property of section 8. \<open>k\<close> is the number of retries made so far, and the delay function
  gets the number of the retry about to be made, from 1. The package's accounting of the
  request timeout across the retries is not modelled.
\<close>

function retryLoop :: "retry_options \<Rightarrow> (nat \<Rightarrow> error + 'a) \<Rightarrow> nat \<Rightarrow> number list \<Rightarrow> 'a outcome" where
  "retryLoop opts work k ds =
     (if isl (work k) \<and> int k < retries opts \<and> retryCond opts (projl (work k))
      then retryLoop opts work (Suc k) (ds @ [retryDel opts (Suc k)])
      else \<lparr>result = work k, attempts = Suc k, delays = ds\<rparr>)"
  by pat_completeness auto
termination
  by (relation "measure (\<lambda>(opts, work, k, ds). nat (retries opts - int k))") auto

text \<open>An instance that was never configured for retries sends the request once.\<close>

definition request :: "axios_instance \<Rightarrow> request_config \<Rightarrow> 'a network \<Rightarrow> 'a outcome" where
  "request inst config net =
     (case retryOpts inst of
        None \<Rightarrow> \<lparr>result = net config 0, attempts = 1, delays = []\<rparr>
      | Some opts \<Rightarrow> retryLoop opts (net config) 0 [])"

text \<open>\<open>try { ... } catch (error) { throw error; }\<close>: the error is thrown again as it is.\<close>

definition rethrow :: "error + 'a \<Rightarrow> error + 'a" where
  "rethrow r = (case r of Inl e \<Rightarrow> Inl e | Inr v \<Rightarrow> Inr v)"

section \<open>RestUtility without a circuit breaker\<close>

text \<open>
  The variant of the class whose handlers send the request through the very instance that
  \<open>applyRetry\<close> configured. The instance is created from base URL and timeout; method, URL,
  body and headers come with the call.
\<close>

definition instance_config :: "string \<Rightarrow> int \<Rightarrow> request_config" where
  "instance_config b t =
     \<lparr>reqMethod = [], baseURL = b, url = [], data = None, headers = [], timeout = t\<rparr>"

definition get2 ::
  "(error \<Rightarrow> bool) \<Rightarrow> 'a network \<Rightarrow> store \<Rightarrow> string \<Rightarrow> string \<Rightarrow> (string \<times> string) list \<Rightarrow>
   bool \<Rightarrow> int \<Rightarrow> int \<Rightarrow> 'a outcome \<times> store" where
  "get2 isNetErr net h b endpoint hdrs retry retryCount t =
     (let (axiosInstance, h1) = axios_create (instance_config b t) h;
          h2 = applyRetry isNetErr retry retryCount axiosInstance h1;
          inst = h2 ! axiosInstance;
          out = request inst ((defaults inst)\<lparr>reqMethod := ''get'', url := endpoint, headers := hdrs\<rparr>) net
      in (out\<lparr>result := rethrow (result out)\<rparr>, h2))"

definition post2 ::
  "(error \<Rightarrow> bool) \<Rightarrow> 'a network \<Rightarrow> store \<Rightarrow> string \<Rightarrow> string \<Rightarrow> string \<Rightarrow> (string \<times> string) list \<Rightarrow>
   bool \<Rightarrow> int \<Rightarrow> int \<Rightarrow> 'a outcome \<times> store" where
  "post2 isNetErr net h b endpoint body hdrs retry retryCount t =
     (let (axiosInstance, h1) = axios_create (instance_config b t) h;
          h2 = applyRetry isNetErr retry retryCount axiosInstance h1;
          inst = h2 ! axiosInstance;
          out = request inst
                  ((defaults inst)\<lparr>reqMethod := ''post'', url := endpoint, data := Some body,
                     headers := hdrs\<rparr>) net
      in (out\<lparr>result := rethrow (result out)\<rparr>, h2))"

definition put2 ::
  "(error \<Rightarrow> bool) \<Rightarrow> 'a network \<Rightarrow> store \<Rightarrow> string \<Rightarrow> string \<Rightarrow> string \<Rightarrow> (string \<times> string) list \<Rightarrow>
   bool \<Rightarrow> int \<Rightarrow> int \<Rightarrow> 'a outcome \<times> store" where
  "put2 isNetErr net h b endpoint body hdrs retry retryCount t =
     (let (axiosInstance, h1) = axios_create (instance_config b t) h;
          h2 = applyRetry isNetErr retry retryCount axiosInstance h1;
          inst = h2 ! axiosInstance;
          out = request inst
                  ((defaults inst)\<lparr>reqMethod := ''put'', url := endpoint, data := Some body,
                     headers := hdrs\<rparr>) net
      in (out\<lparr>result := rethrow (result out)\<rparr>, h2))"

section \<open>Circuit breaker\<close>

datatype breaker_status = CLOSED | OPEN | HALF_OPEN

record breaker_state =
  status :: breaker_status
  rollingFailureCount :: nat
  rollingTotalCount :: nat
  openedAt :: int

text \<open>
  The options the constructor of RestUtility passes, and the minimum volume, which it
  leaves to the breaker. Times are milliseconds.
\<close>

record breaker_options =
  cbTimeout :: int
  errorThresholdPercentage :: nat
  resetTimeout :: int
  minimumVolume :: nat

definition initial_breaker :: breaker_state where
  "initial_breaker =
     \<lparr>status = CLOSED, rollingFailureCount = 0, rollingTotalCount = 0, openedAt = 0\<rparr>"

text \<open>
  Modelled from the spec: the breaker's own clock transition. The breaker class comes from
  a package that is not among the sources. An open breaker becomes half-open once
  \<open>now - openedAt \<ge> resetTimeout\<close>.
\<close>

definition refresh :: "breaker_options \<Rightarrow> int \<Rightarrow> breaker_state \<Rightarrow> breaker_state" where
  "refresh opts now s =
     (if status s = OPEN \<and> resetTimeout opts \<le> now - openedAt s
      then s\<lparr>status := HALF_OPEN\<rparr> else s)"

text \<open>
  Modelled from the spec: recording the outcome of a call that was let through. Closed:
  the counters are updated, and the breaker opens when the total has reached the minimum
  volume and failures / total is at least the threshold (a percentage here, so the test is
  \<open>threshold * total \<le> 100 * failures\<close>). Half-open: the trial call closes the breaker and
  resets the counters when it succeeded, and opens it again with a new \<open>openedAt\<close> when it
  failed. The spec does not say when an outcome leaves the window; the counters run until
  they are reset.
\<close>

definition recordOutcome :: "breaker_options \<Rightarrow> int \<Rightarrow> bool \<Rightarrow> breaker_state \<Rightarrow> breaker_state" where
  "recordOutcome opts now ok s =
     (case status s of
        CLOSED \<Rightarrow>
          (let f = rollingFailureCount s + (if ok then 0 else 1);
               t = rollingTotalCount s + 1;
               s' = s\<lparr>rollingFailureCount := f, rollingTotalCount := t\<rparr>
           in if minimumVolume opts \<le> t \<and> errorThresholdPercentage opts * t \<le> 100 * f
              then s'\<lparr>status := OPEN, openedAt := now\<rparr> else s')
      | HALF_OPEN \<Rightarrow>
          (if ok then s\<lparr>status := CLOSED, rollingFailureCount := 0, rollingTotalCount := 0\<rparr>
           else s\<lparr>status := OPEN, openedAt := now\<rparr>)
      | OPEN \<Rightarrow> s)"

section \<open>RestUtility with a circuit breaker\<close>

text \<open>
  A RestUtility object holds one breaker, made of its options and its state. \<open>instances\<close>
  is the store of client instances; it is not a field of the class, it is carried along
  because the handlers allocate in it.
\<close>

record rest_utility =
  cbOptions :: breaker_options
  cbState :: breaker_state
  instances :: store

text \<open>
  The constructor: timeout 5000, error threshold 50 percent, reset timeout 10000. No
  minimum volume is passed; it is the parameter \<open>mv\<close>.
\<close>

definition RestUtility_new :: "nat \<Rightarrow> rest_utility" where
  "RestUtility_new mv =
     \<lparr>cbOptions = \<lparr>cbTimeout = 5000, errorThresholdPercentage = 50, resetTimeout = 10000,
                   minimumVolume = mv\<rparr>,
      cbState = initial_breaker, instances = []\<rparr>"

text \<open>
  Modelled from the spec: \<open>circuitBreaker.fire\<close>, from the same package. While the breaker
  is open the call is rejected with \<open>CircuitOpenError\<close> and the action is not run (no
  attempt is made); otherwise the action runs and its outcome is recorded. Durations are
  not modelled: a call that runs into a timeout is a call whose attempt failed.
\<close>

definition fire ::
  "int \<Rightarrow> (store \<Rightarrow> 'a outcome \<times> store) \<Rightarrow> rest_utility \<Rightarrow> 'a outcome \<times> rest_utility" where
  "fire now action u =
     (let s = refresh (cbOptions u) now (cbState u)
      in if status s = OPEN
         then (\<lparr>result = Inl CircuitOpenError, attempts = 0, delays = []\<rparr>, u\<lparr>cbState := s\<rparr>)
         else (let (out, h) = action (instances u)
               in (out, u\<lparr>cbState := recordOutcome (cbOptions u) now (\<not> isl (result out)) s,
                           instances := h\<rparr>)))"

text \<open>
  \<open>makeRequest\<close>, the action bound to the breaker: it creates an instance of its own from
  the request configuration and sends the request through it.
\<close>

definition makeRequest :: "'a network \<Rightarrow> request_config \<Rightarrow> store \<Rightarrow> 'a outcome \<times> store" where
  "makeRequest net config h =
     (let (axiosInstance, h1) = axios_create config h;
          out = request (h1 ! axiosInstance) config net
      in (out\<lparr>result := rethrow (result out)\<rparr>, h1))"

text \<open>
  The handlers: the retry configuration goes to an instance created for it, then the
  breaker fires \<open>makeRequest\<close> on the configuration.
\<close>

definition get ::
  "(error \<Rightarrow> bool) \<Rightarrow> 'a network \<Rightarrow> int \<Rightarrow> rest_utility \<Rightarrow> string \<Rightarrow> string \<Rightarrow>
   (string \<times> string) list \<Rightarrow> bool \<Rightarrow> int \<Rightarrow> int \<Rightarrow> 'a outcome \<times> rest_utility" where
  "get isNetErr net now u b endpoint hdrs retry retryCount t =
     (let config = \<lparr>reqMethod = ''get'', baseURL = b, url = endpoint, data = None, headers = hdrs,
                     timeout = t\<rparr>;
          (inst, h1) = axios_create config (instances u);
          h2 = applyRetry isNetErr retry retryCount inst h1;
          (out, u') = fire now (makeRequest net config) (u\<lparr>instances := h2\<rparr>)
      in (out\<lparr>result := rethrow (result out)\<rparr>, u'))"

definition post ::
  "(error \<Rightarrow> bool) \<Rightarrow> 'a network \<Rightarrow> int \<Rightarrow> rest_utility \<Rightarrow> string \<Rightarrow> string \<Rightarrow> string \<Rightarrow>
   (string \<times> string) list \<Rightarrow> bool \<Rightarrow> int \<Rightarrow> int \<Rightarrow> 'a outcome \<times> rest_utility" where
  "post isNetErr net now u b endpoint body hdrs retry retryCount t =
     (let config = \<lparr>reqMethod = ''post'', baseURL = b, url = endpoint, data = Some body,
                     headers = hdrs, timeout = t\<rparr>;
          (inst, h1) = axios_create config (instances u);
          h2 = applyRetry isNetErr retry retryCount inst h1;
          (out, u') = fire now (makeRequest net config) (u\<lparr>instances := h2\<rparr>)
      in (out\<lparr>result := rethrow (result out)\<rparr>, u'))"

definition put ::
  "(error \<Rightarrow> bool) \<Rightarrow> 'a network \<Rightarrow> int \<Rightarrow> rest_utility \<Rightarrow> string \<Rightarrow> string \<Rightarrow> string \<Rightarrow>
   (string \<times> string) list \<Rightarrow> bool \<Rightarrow> int \<Rightarrow> int \<Rightarrow> 'a outcome \<times> rest_utility" where
  "put isNetErr net now u b endpoint body hdrs retry retryCount t =
     (let config = \<lparr>reqMethod = ''put'', baseURL = b, url = endpoint, data = Some body,
                     headers = hdrs, timeout = t\<rparr>;
          (inst, h1) = axios_create config (instances u);
          h2 = applyRetry isNetErr retry retryCount inst h1;
          (out, u') = fire now (makeRequest net config) (u\<lparr>instances := h2\<rparr>)
      in (out\<lparr>result := rethrow (result out)\<rparr>, u'))"

text \<open>
  Modelled from the spec: one call seen from the breaker alone, given the time of the call
  and whether the work succeeded: rejected while open, recorded otherwise.
\<close>

definition breakerCall :: "breaker_options \<Rightarrow> int \<times> bool \<Rightarrow> breaker_state \<Rightarrow> breaker_state" where
  "breakerCall opts c s =
     (let s1 = refresh opts (fst c) s
      in if status s1 = OPEN then s1 else recordOutcome opts (fst c) (snd c) s1)"

text \<open>The states a breaker goes through over a sequence of calls, the starting state first.\<close>

fun breakerRun :: "breaker_options \<Rightarrow> breaker_state \<Rightarrow> (int \<times> bool) list \<Rightarrow> breaker_state list" where
  "breakerRun opts s [] = [s]"
| "breakerRun opts s (c # cs) = s # breakerRun opts (breakerCall opts c s) cs"

section \<open>Lock authorities and the lock manager\<close>

text \<open>
  An authority holds at most one record per resource key: the owner's token and the time
  the record expires. An authority that is not reachable answers no call in time.
\<close>

record authority =
  reachable :: bool
  records :: "string \<rightharpoonup> string \<times> int"

text \<open>
  Modelled from the spec: \<open>tryAcquire\<close> of the authority client. The quorum lock lives in
  the lock package, which is not among the sources. The record is created only if there
  is none or the one there has expired.
\<close>

definition tryAcquire :: "string \<Rightarrow> string \<Rightarrow> int \<Rightarrow> int \<Rightarrow> authority \<Rightarrow> bool \<times> authority" where
  "tryAcquire resourceKey ownerToken ttl now a =
     (if \<not> reachable a then (False, a)
      else case records a resourceKey of
             None \<Rightarrow> (True, a\<lparr>records := (records a)(resourceKey \<mapsto> (ownerToken, now + ttl))\<rparr>)
           | Some r \<Rightarrow>
               if snd r \<le> now
               then (True, a\<lparr>records := (records a)(resourceKey \<mapsto> (ownerToken, now + ttl))\<rparr>)
               else (False, a))"

text \<open>
  Modelled from the spec: \<open>release\<close> of the authority client, compare then delete.
\<close>

definition releaseAuthority :: "string \<Rightarrow> string \<Rightarrow> authority \<Rightarrow> bool \<times> authority" where
  "releaseAuthority resourceKey ownerToken a =
     (if \<not> reachable a then (False, a)
      else case records a resourceKey of
             None \<Rightarrow> (False, a)
           | Some r \<Rightarrow>
               if fst r = ownerToken
               then (True, a\<lparr>records := (records a)(resourceKey := None)\<rparr>)
               else (False, a))"

record lease =
  resourceKey :: string
  ownerToken :: string
  validUntil :: int
  quorumAchieved :: nat

definition majority :: "nat \<Rightarrow> nat" where
  "majority n = n div 2 + 1"

text \<open>
  What the manager's \<open>acquire\<close> returns: the lease or the error, the authorities after the
  attempt, and the positions of the authorities it issued \<open>release\<close> to.
\<close>

record acquired =
  answer :: "error + lease"
  authorities :: "authority list"
  releasedAt :: "nat list"

text \<open>
  Modelled from the spec: \<open>acquire\<close> of the lock manager, steps 2 to 6 of the quorum lock.
  The fresh token is the argument \<open>token\<close>; \<open>elapsed\<close> is the time the fan-out took.
\<close>

definition acquire ::
  "authority list \<Rightarrow> string \<Rightarrow> string \<Rightarrow> int \<Rightarrow> int \<Rightarrow> int \<Rightarrow> int \<Rightarrow> acquired" where
  "acquire auths key token ttl startTime elapsed clockDriftMargin =
     (let settled = map (tryAcquire key token ttl startTime) auths;
          quorum = length (filter fst settled);
          validity = ttl - elapsed - clockDriftMargin
      in if majority (length auths) \<le> quorum \<and> 0 < validity
         then \<lparr>answer = Inr \<lparr>resourceKey = key, ownerToken = token,
                              validUntil = startTime + validity, quorumAchieved = quorum\<rparr>,
               authorities = map snd settled, releasedAt = []\<rparr>
         else \<lparr>answer = Inl QuorumNotReachedError,
               authorities =
                 map (\<lambda>r. if fst r then snd (releaseAuthority key token (snd r)) else snd r) settled,
               releasedAt = filter (\<lambda>i. fst (settled ! i)) [0..<length settled]\<rparr>)"

text \<open>The number of authorities that accept a \<open>tryAcquire\<close>.\<close>

definition accepting :: "authority list \<Rightarrow> string \<Rightarrow> string \<Rightarrow> int \<Rightarrow> int \<Rightarrow> nat" where
  "accepting auths key token ttl now =
     length (filter (\<lambda>a. fst (tryAcquire key token ttl now a)) auths)"

section \<open>OrderService\<close>

text \<open>The lock object the lock package resolves \<open>acquire\<close> with.\<close>

record lock =
  lockResources :: "string list"
  lockValue :: string

datatype event =
    AcquireCall "string list" int
  | ProcessCall string
  | ReleaseCall lock
  | Log string
  | LogError string error

text \<open>
  \<open>processOrder\<close> logs, awaits the simulated work and logs again; \<open>work\<close> is the outcome of
  the awaited work.
\<close>

definition processOrder :: "(string \<Rightarrow> error + unit) \<Rightarrow> string \<Rightarrow> (error + unit) \<times> event list" where
  "processOrder work orderId =
     (case work orderId of
        Inl err \<Rightarrow> (Inl err, [ProcessCall orderId, Log (''Processing order: '' @ orderId)])
      | Inr v \<Rightarrow> (Inr v, [ProcessCall orderId, Log (''Processing order: '' @ orderId),
                         Log (''Order processing completed: '' @ orderId)]))"

text \<open>
  \<open>createOrder\<close>. The environment gives the outcome of \<open>redlock.acquire\<close>, of the awaited
  work and of \<open>lock.release\<close>. The \<open>try\<close> block leaves the variable \<open>lock\<close> unset when
  \<open>acquire\<close> rejects; the \<open>catch\<close> block logs what was thrown and throws a new error; the
  \<open>finally\<close> block releases the lock if the variable is set, and an error thrown there
  replaces the pending one. The result comes with the effects in the order they happen.
\<close>

definition createOrder ::
  "(string list \<Rightarrow> int \<Rightarrow> error + lock) \<Rightarrow> (string \<Rightarrow> error + unit) \<Rightarrow> (lock \<Rightarrow> error + unit) \<Rightarrow>
   string \<Rightarrow> (error + unit) \<times> event list" where
  "createOrder acquireLock work release orderId =
     (let lockKey = ''order_lock:'' @ orderId;
          (lock, tried, ev1) =
            (case acquireLock [lockKey] 30000 of
               Inl err \<Rightarrow> (None, Inl err, [AcquireCall [lockKey] 30000])
             | Inr l \<Rightarrow>
                 (let (r, ev) = processOrder work orderId
                  in (Some l, r,
                      [AcquireCall [lockKey] 30000, Log (''Acquired lock for order: '' @ orderId)]
                      @ ev
                      @ (case r of Inl err \<Rightarrow> []
                         | Inr v \<Rightarrow> [Log (''Order created successfully: '' @ orderId)]))));
          (caught, ev2) =
            (case tried of
               Inl err \<Rightarrow> (Inl (Error ''Could not create order''),
                           [LogError (''Failed to create order '' @ orderId @ '':'') err])
             | Inr v \<Rightarrow> (Inr v, []))
      in case lock of
           None \<Rightarrow> (caught, ev1 @ ev2)
         | Some l \<Rightarrow>
             (case release l of
                Inl err \<Rightarrow> (Inl err, ev1 @ ev2 @ [ReleaseCall l])
              | Inr v \<Rightarrow> (caught, ev1 @ ev2 @ [ReleaseCall l,
                                               Log (''Released lock for order: '' @ orderId)])))"

fun isRelease :: "event \<Rightarrow> bool" where
  "isRelease (ReleaseCall l) = True"
| "isRelease e = False"

section \<open>Example inputs\<close>

text \<open>A server that answers 503 to the first two attempts of any request and then succeeds.\<close>

definition flaky :: "string network" where
  "flaky config k = (if k < 2 then Inl (AxiosError None (Some 503)) else Inr ''ok'')"

text \<open>A server on which the endpoint \<open>/a\<close> always answers 500 and every other one succeeds.\<close>

definition oneDown :: "string network" where
  "oneDown config k = (if url config = ''/a'' then Inl (AxiosError None (Some 500)) else Inr ''ok'')"

text \<open>A list of codes that forbids no retry.\<close>

definition allowAll :: "error \<Rightarrow> bool" where
  "allowAll e = True"

text \<open>A helper used in the examples: an error without a response.\<close>

definition noResponse :: "error \<Rightarrow> bool" where
  "noResponse e = (response_status e = None)"

definition theLock :: lock where
  "theLock = \<lparr>lockResources = [''order_lock:42''], lockValue = ''token''\<rparr>"

definition free :: authority where
  "free = \<lparr>reachable = True, records = Map.empty\<rparr>"

definition down :: authority where
  "down = \<lparr>reachable = False, records = Map.empty\<rparr>"

definition taken :: authority where
  "taken = \<lparr>reachable = True, records = [''k'' \<mapsto> (''other'', 100000)]\<rparr>"

text \<open>Outcomes of the environment of \<open>createOrder\<close>.\<close>

definition acquireOk :: "string list \<Rightarrow> int \<Rightarrow> error + lock" where
  "acquireOk resources ttl = Inr theLock"

definition acquireFails :: "string list \<Rightarrow> int \<Rightarrow> error + lock" where
  "acquireFails resources ttl = Inl QuorumNotReachedError"

definition workOk :: "string \<Rightarrow> error + unit" where
  "workOk orderId = Inr ()"

definition workFails :: "string \<Rightarrow> error + unit" where
  "workFails orderId = Inl (AxiosError None (Some 400))"

definition releaseOk :: "lock \<Rightarrow> error + unit" where
  "releaseOk l = Inr ()"

text \<open>A new RestUtility after one failed call to \<open>/a\<close> at time 0.\<close>

definition afterFailure :: rest_utility where
  "afterFailure =
     snd (get noResponse oneDown 0 (RestUtility_new 0) ''http://h'' ''/a'' [] False 3 5000)"

section \<open>Helper lemmas\<close>

lemma rethrow_id [simp]: "rethrow r = r"
  by (cases r) (simp_all add: rethrow_def)

lemma makeRequest_once:
  "fst (makeRequest net config h) = \<lparr>result = net config 0, attempts = 1, delays = []\<rparr>"
  by (simp add: makeRequest_def axios_create_def request_def)

lemma fire_fst:
  "fst (fire now action u) =
     (if status (refresh (cbOptions u) now (cbState u)) = OPEN
      then \<lparr>result = Inl CircuitOpenError, attempts = 0, delays = []\<rparr>
      else fst (action (instances u)))"
  by (simp add: fire_def Let_def split: prod.splits)

lemma fire_state:
  "cbState (snd (fire now action u)) =
     breakerCall (cbOptions u) (now, \<not> isl (result (fst (action (instances u))))) (cbState u)"
  by (simp add: fire_def breakerCall_def Let_def split: prod.splits)

lemma fire_options: "cbOptions (snd (fire now action u)) = cbOptions u"
  by (simp add: fire_def Let_def split: prod.splits)

text \<open>
  Whatever the retry flag and count, a handler of the breaker variant sends the request at
  most once: the instance \<open>makeRequest\<close> sends it through is not the one \<open>applyRetry\<close> got.
\<close>

lemma get_fst:
  "fst (get isNetErr net now u b e hdrs retry rc t) =
     (if status (refresh (cbOptions u) now (cbState u)) = OPEN
      then \<lparr>result = Inl CircuitOpenError, attempts = 0, delays = []\<rparr>
      else \<lparr>result = net \<lparr>reqMethod = ''get'', baseURL = b, url = e, data = None, headers = hdrs,
                            timeout = t\<rparr> 0,
            attempts = 1, delays = []\<rparr>)"
  using fire_fst [of now "makeRequest net \<lparr>reqMethod = ''get'', baseURL = b, url = e, data = None,
                                          headers = hdrs, timeout = t\<rparr>"]
  by (simp add: get_def Let_def axios_create_def makeRequest_once split: prod.splits)

lemma post_fst:
  "fst (post isNetErr net now u b e body hdrs retry rc t) =
     (if status (refresh (cbOptions u) now (cbState u)) = OPEN
      then \<lparr>result = Inl CircuitOpenError, attempts = 0, delays = []\<rparr>
      else \<lparr>result = net \<lparr>reqMethod = ''post'', baseURL = b, url = e, data = Some body,
                            headers = hdrs, timeout = t\<rparr> 0,
            attempts = 1, delays = []\<rparr>)"
  using fire_fst [of now "makeRequest net \<lparr>reqMethod = ''post'', baseURL = b, url = e,
                                          data = Some body, headers = hdrs, timeout = t\<rparr>"]
  by (simp add: post_def Let_def axios_create_def makeRequest_once split: prod.splits)

lemma put_fst:
  "fst (put isNetErr net now u b e body hdrs retry rc t) =
     (if status (refresh (cbOptions u) now (cbState u)) = OPEN
      then \<lparr>result = Inl CircuitOpenError, attempts = 0, delays = []\<rparr>
      else \<lparr>result = net \<lparr>reqMethod = ''put'', baseURL = b, url = e, data = Some body,
                            headers = hdrs, timeout = t\<rparr> 0,
            attempts = 1, delays = []\<rparr>)"
  using fire_fst [of now "makeRequest net \<lparr>reqMethod = ''put'', baseURL = b, url = e,
                                          data = Some body, headers = hdrs, timeout = t\<rparr>"]
  by (simp add: put_def Let_def axios_create_def makeRequest_once split: prod.splits)

lemma new_not_open:
  "status (refresh (cbOptions (RestUtility_new mv)) now (cbState (RestUtility_new mv))) = CLOSED"
  by (simp add: RestUtility_new_def refresh_def initial_breaker_def)

lemma new_options:
  "cbOptions (RestUtility_new mv) =
     \<lparr>cbTimeout = 5000, errorThresholdPercentage = 50, resetTimeout = 10000, minimumVolume = mv\<rparr>"
  by (simp add: RestUtility_new_def)

lemma new_state: "cbState (RestUtility_new mv) = initial_breaker"
  by (simp add: RestUtility_new_def)

text \<open>
  The breaker of a handler's object after the call: the one state, advanced by the time of
  the call and by whether the single attempt succeeded. The endpoint matters only through
  that answer.
\<close>

lemma get_state:
  "cbState (snd (get isNetErr net now u b e hdrs retry rc t)) =
     breakerCall (cbOptions u)
       (now, \<not> isl (net \<lparr>reqMethod = ''get'', baseURL = b, url = e, data = None,
                             headers = hdrs, timeout = t\<rparr> 0))
       (cbState u)
   \<and> cbOptions (snd (get isNetErr net now u b e hdrs retry rc t)) = cbOptions u"
proof -
  let ?c = "\<lparr>reqMethod = ''get'', baseURL = b, url = e, data = None, headers = hdrs,
             timeout = t\<rparr>"
  let ?u = "u\<lparr>instances := applyRetry isNetErr retry rc (length (instances u))
                 (instances u @ [\<lparr>defaults = ?c, retryOpts = None\<rparr>])\<rparr>"
  have "snd (get isNetErr net now u b e hdrs retry rc t) = snd (fire now (makeRequest net ?c) ?u)"
    by (simp add: get_def Let_def axios_create_def split: prod.splits)
  then show ?thesis
    using fire_state [of now "makeRequest net ?c" ?u] fire_options [of now "makeRequest net ?c" ?u]
    by (simp add: makeRequest_once)
qed

lemma post_state:
  "cbState (snd (post isNetErr net now u b e body hdrs retry rc t)) =
     breakerCall (cbOptions u)
       (now, \<not> isl (net \<lparr>reqMethod = ''post'', baseURL = b, url = e, data = Some body,
                             headers = hdrs, timeout = t\<rparr> 0))
       (cbState u)"
proof -
  let ?c = "\<lparr>reqMethod = ''post'', baseURL = b, url = e, data = Some body, headers = hdrs,
             timeout = t\<rparr>"
  let ?u = "u\<lparr>instances := applyRetry isNetErr retry rc (length (instances u))
                 (instances u @ [\<lparr>defaults = ?c, retryOpts = None\<rparr>])\<rparr>"
  have "snd (post isNetErr net now u b e body hdrs retry rc t) =
          snd (fire now (makeRequest net ?c) ?u)"
    by (simp add: post_def Let_def axios_create_def split: prod.splits)
  then show ?thesis
    using fire_state [of now "makeRequest net ?c" ?u] by (simp add: makeRequest_once)
qed

lemma put_state:
  "cbState (snd (put isNetErr net now u b e body hdrs retry rc t)) =
     breakerCall (cbOptions u)
       (now, \<not> isl (net \<lparr>reqMethod = ''put'', baseURL = b, url = e, data = Some body,
                             headers = hdrs, timeout = t\<rparr> 0))
       (cbState u)"
proof -
  let ?c = "\<lparr>reqMethod = ''put'', baseURL = b, url = e, data = Some body, headers = hdrs,
             timeout = t\<rparr>"
  let ?u = "u\<lparr>instances := applyRetry isNetErr retry rc (length (instances u))
                 (instances u @ [\<lparr>defaults = ?c, retryOpts = None\<rparr>])\<rparr>"
  have "snd (put isNetErr net now u b e body hdrs retry rc t) =
          snd (fire now (makeRequest net ?c) ?u)"
    by (simp add: put_def Let_def axios_create_def split: prod.splits)
  then show ?thesis
    using fire_state [of now "makeRequest net ?c" ?u] by (simp add: makeRequest_once)
qed

lemma post_options: "cbOptions (snd (post isNetErr net now u b e body hdrs retry rc t)) = cbOptions u"
proof -
  let ?c = "\<lparr>reqMethod = ''post'', baseURL = b, url = e, data = Some body, headers = hdrs,
             timeout = t\<rparr>"
  let ?u = "u\<lparr>instances := applyRetry isNetErr retry rc (length (instances u))
                 (instances u @ [\<lparr>defaults = ?c, retryOpts = None\<rparr>])\<rparr>"
  have "snd (post isNetErr net now u b e body hdrs retry rc t) =
          snd (fire now (makeRequest net ?c) ?u)"
    by (simp add: post_def Let_def axios_create_def split: prod.splits)
  then show ?thesis
    using fire_options [of now "makeRequest net ?c" ?u] by simp
qed

lemma put_options: "cbOptions (snd (put isNetErr net now u b e body hdrs retry rc t)) = cbOptions u"
proof -
  let ?c = "\<lparr>reqMethod = ''put'', baseURL = b, url = e, data = Some body, headers = hdrs,
             timeout = t\<rparr>"
  let ?u = "u\<lparr>instances := applyRetry isNetErr retry rc (length (instances u))
                 (instances u @ [\<lparr>defaults = ?c, retryOpts = None\<rparr>])\<rparr>"
  have "snd (put isNetErr net now u b e body hdrs retry rc t) =
          snd (fire now (makeRequest net ?c) ?u)"
    by (simp add: put_def Let_def axios_create_def split: prod.splits)
  then show ?thesis
    using fire_options [of now "makeRequest net ?c" ?u] by simp
qed

text \<open>Every handler rejects, without sending, on an object whose breaker is still open.\<close>

lemma handlers_reject:
  assumes "status (cbState v) = OPEN" and "now - openedAt (cbState v) < resetTimeout (cbOptions v)"
  shows "fst (get isNetErr net now v b e hdrs retry rc t) =
           \<lparr>result = Inl CircuitOpenError, attempts = 0, delays = []\<rparr>"
    and "fst (post isNetErr net now v b e body hdrs retry rc t) =
           \<lparr>result = Inl CircuitOpenError, attempts = 0, delays = []\<rparr>"
    and "fst (put isNetErr net now v b e body hdrs retry rc t) =
           \<lparr>result = Inl CircuitOpenError, attempts = 0, delays = []\<rparr>"
  using assms by (simp_all add: get_fst post_fst put_fst refresh_def)

lemma afterFailure_state:
  "cbState afterFailure =
     \<lparr>status = OPEN, rollingFailureCount = 1, rollingTotalCount = 1, openedAt = 0\<rparr>
   \<and> cbOptions afterFailure = cbOptions (RestUtility_new 0)"
  by (simp add: afterFailure_def get_state oneDown_def breakerCall_def refresh_def
      recordOutcome_def RestUtility_new_def initial_breaker_def)

text \<open>A closed breaker that a call leaves open has reached volume and threshold.\<close>

lemma breakerCall_trips:
  "status s = CLOSED \<Longrightarrow> status (breakerCall opts c s) = OPEN \<Longrightarrow>
   minimumVolume opts \<le> rollingTotalCount (breakerCall opts c s)
   \<and> 0 < rollingTotalCount (breakerCall opts c s)
   \<and> errorThresholdPercentage opts * rollingTotalCount (breakerCall opts c s)
       \<le> 100 * rollingFailureCount (breakerCall opts c s)"
  by (auto simp: breakerCall_def refresh_def recordOutcome_def Let_def split: if_splits)

lemma breakerCall_counts:
  "rollingFailureCount s \<le> rollingTotalCount s \<Longrightarrow>
   rollingFailureCount (breakerCall opts c s) \<le> rollingTotalCount (breakerCall opts c s)"
  by (auto simp: breakerCall_def refresh_def recordOutcome_def Let_def
      split: if_splits breaker_status.splits)

lemma breakerRun_step:
  "i < length cs \<Longrightarrow>
   breakerRun opts s cs ! Suc i = breakerCall opts (cs ! i) (breakerRun opts s cs ! i)"
proof (induction cs arbitrary: s i)
  case Nil
  then show ?case by simp
next
  case (Cons c cs)
  show ?case
  proof (cases i)
    case 0
    then show ?thesis by (cases cs) simp_all
  next
    case (Suc j)
    with Cons.prems have "j < length cs" by simp
    from Cons.IH [OF this, of "breakerCall opts c s"] Suc show ?thesis by simp
  qed
qed

lemma settled_indices:
  "filter (\<lambda>i. fst (map f xs ! i)) [0..<length xs] = filter (\<lambda>i. fst (f (xs ! i))) [0..<length xs]"
  by (rule filter_cong) simp_all

lemma released_gone:
  "fst (tryAcquire key token ttl now a) \<Longrightarrow>
   records (snd (releaseAuthority key token (snd (tryAcquire key token ttl now a)))) key = None"
  by (auto simp: tryAcquire_def releaseAuthority_def split: if_splits option.splits)

lemma acquire_eq:
  "acquire auths key token ttl start elapsed margin =
     (if length auths div 2 + 1 \<le> accepting auths key token ttl start \<and> 0 < ttl - elapsed - margin
      then \<lparr>answer = Inr \<lparr>resourceKey = key, ownerToken = token,
                           validUntil = start + (ttl - elapsed - margin),
                           quorumAchieved = accepting auths key token ttl start\<rparr>,
            authorities = map (\<lambda>a. snd (tryAcquire key token ttl start a)) auths,
            releasedAt = []\<rparr>
      else \<lparr>answer = Inl QuorumNotReachedError,
            authorities =
              map (\<lambda>a. if fst (tryAcquire key token ttl start a)
                        then snd (releaseAuthority key token (snd (tryAcquire key token ttl start a)))
                        else snd (tryAcquire key token ttl start a)) auths,
            releasedAt = filter (\<lambda>i. fst (tryAcquire key token ttl start (auths ! i)))
                           [0..<length auths]\<rparr>)"
  by (simp add: acquire_def Let_def accepting_def majority_def comp_def settled_indices)

section \<open>Backoff and retry predicate\<close>

text \<open>
  C4, as the spec states it, at the first retry: the delay is \<open>base * 2^(n-1)\<close> with a base of
  1000 ms. The code gives 2000 ms there.
\<close>

theorem retryDelay_first_retry_counterexample:
  "retryDelay 1 = Finite 2000 \<and> retryDelay 1 \<noteq> Finite (1000 * 2 ^ (1 - 1))"
  by (simp add: retryDelay_def)

text \<open>
  C4, amended: for every attempt number \<open>n\<close> from 1 to 1014 the delay is \<open>1000 * 2^n\<close>
  milliseconds, that is \<open>base * 2^(n-1)\<close> with a base of 2000 ms; for every attempt number
  above 1014 the double-precision result is \<open>Infinity\<close>.
\<close>

theorem retryDelay_doubles:
  "(1 \<le> n \<and> n \<le> 1014 \<longrightarrow>
      retryDelay n = Finite (1000 * 2 ^ n) \<and> retryDelay n = Finite (2000 * 2 ^ (n - 1)))
   \<and> (1014 < n \<longrightarrow> retryDelay n = Infinity)"
proof (cases n)
  case 0
  then show ?thesis by simp
next
  case (Suc m)
  then show ?thesis by (simp add: retryDelay_def)
qed

theorem retryDelay_doubles_witness:
  "(1::nat) \<le> 3 \<and> (3::nat) \<le> 1014 \<and> retryDelay 3 = Finite 8000
   \<and> retryDelay 3 = Finite (2000 * 2 ^ (3 - 1))
   \<and> (1014::nat) < 1015 \<and> retryDelay 1015 = Infinity"
  using retryDelay_doubles [of 3] retryDelay_doubles [of 1015]
  by simp

text \<open>
  C7, as stated, fails on a request that ran into its timeout: the error has no response,
  so it is neither a server-class nor a client-class error but a network-class one, and
  the predicate does not accept it, whatever the method.
\<close>

theorem retryCondition_timeout_counterexample:
  "response_status (AxiosError (Some ''ECONNABORTED'') None) = None
   \<and> \<not> retryCondition (isNetworkOrIdempotentRequestError allowAll ''get'')
         (AxiosError (Some ''ECONNABORTED'') None)"
  by (simp add: retryCondition_def isNetworkOrIdempotentRequestError_def isNetworkError_def
      isIdempotentRequestError_def isRetryableError_def)

text \<open>
  C7, amended: the retry predicate, with the package's helper, accepts an error exactly
  when its response has a status of 500 or more, or it has no response, is not a request
  that ran into its timeout, and either has an error code that the package allows to be
  retried or comes from an idempotent request. Every error whose response has a status
  below 500, so every client-class error, is not retried.
\<close>

theorem retryCondition_accepts:
  "(retryCondition (isNetworkOrIdempotentRequestError isRetryAllowed m) e \<longleftrightarrow>
      (\<exists>s. response_status e = Some s \<and> 500 \<le> s)
      \<or> (response_status e = None \<and> error_code e \<noteq> Some ''ECONNABORTED''
          \<and> ((error_code e \<noteq> None \<and> isRetryAllowed e)
              \<or> (has_config e \<and> m \<in> {''get'', ''head'', ''options'', ''put'', ''delete''}))))
   \<and> ((\<exists>s. response_status e = Some s \<and> s < 500) \<longrightarrow>
        \<not> retryCondition (isNetworkOrIdempotentRequestError isRetryAllowed m) e)"
  by (cases "response_status e")
     (auto simp: retryCondition_def isNetworkOrIdempotentRequestError_def isNetworkError_def
        isIdempotentRequestError_def isRetryableError_def INTERNAL_SERVER_ERROR_def
        IDEMPOTENT_HTTP_METHODS_def SAFE_HTTP_METHODS_def)

theorem retryCondition_accepts_witness:
  "(\<exists>s. response_status (AxiosError (Some ''ERR_BAD_REQUEST'') (Some 404)) = Some s \<and> s < 500)
   \<and> \<not> retryCondition (isNetworkOrIdempotentRequestError allowAll ''get'')
         (AxiosError (Some ''ERR_BAD_REQUEST'') (Some 404))
   \<and> retryCondition (isNetworkOrIdempotentRequestError allowAll ''post'')
         (AxiosError (Some ''ERR_BAD_RESPONSE'') (Some 503))
   \<and> retryCondition (isNetworkOrIdempotentRequestError allowAll ''post'')
         (AxiosError (Some ''ECONNRESET'') None)"
  using retryCondition_accepts [of allowAll "''get''" "AxiosError (Some ''ERR_BAD_REQUEST'') (Some 404)"]
    retryCondition_accepts [of allowAll "''post''" "AxiosError (Some ''ERR_BAD_RESPONSE'') (Some 503)"]
    retryCondition_accepts [of allowAll "''post''" "AxiosError (Some ''ECONNRESET'') None"]
  by (simp add: allowAll_def)

section \<open>Retries\<close>

text \<open>
  C10, as stated, fails behind an open breaker: with the retry flag false, a get on the
  object whose breaker a failed call has opened is rejected and the request is not sent
  at all.
\<close>

theorem open_breaker_sends_nothing_counterexample:
  "attempts (fst (get noResponse oneDown 1 afterFailure ''http://h'' ''/b'' [] False 3 5000)) = 0
   \<and> attempts (fst (get noResponse oneDown 1 afterFailure ''http://h'' ''/b'' [] False 3 5000)) \<noteq> 1"
  by (simp add: get_fst afterFailure_state refresh_def new_options)

text \<open>
  C10, amended: with the retry flag false \<open>applyRetry\<close> leaves the store of instances as it
  is, whatever the retry count. The handlers without a breaker then send the request
  exactly once; the handlers behind the breaker send it exactly once when the breaker
  lets the call through and not at all when the breaker is open.
\<close>

theorem no_retry_when_flag_false:
  "applyRetry isNetErr False retryCount inst h = h
   \<and> attempts (fst (get2 isNetErr net h b e hdrs False retryCount t)) = 1
   \<and> attempts (fst (post2 isNetErr net h b e body hdrs False retryCount t)) = 1
   \<and> attempts (fst (put2 isNetErr net h b e body hdrs False retryCount t)) = 1
   \<and> attempts (fst (get isNetErr net now u b e hdrs False retryCount t)) =
       (if status (refresh (cbOptions u) now (cbState u)) = OPEN then 0 else 1)
   \<and> attempts (fst (post isNetErr net now u b e body hdrs False retryCount t)) =
       (if status (refresh (cbOptions u) now (cbState u)) = OPEN then 0 else 1)
   \<and> attempts (fst (put isNetErr net now u b e body hdrs False retryCount t)) =
       (if status (refresh (cbOptions u) now (cbState u)) = OPEN then 0 else 1)"
  by (simp add: applyRetry_def get2_def post2_def put2_def axios_create_def request_def
      get_fst post_fst put_fst)

text \<open>
  The variant without a breaker retries: on the server that fails twice with 503 it
  succeeds at the third attempt, after sleeping 2000 and 4000 ms.
\<close>

lemma get2_retries_flaky:
  "fst (get2 noResponse flaky [] ''https://api.example.com'' ''/data'' [] True 2 5000) =
     \<lparr>result = Inr ''ok'', attempts = 3, delays = [Finite 2000, Finite 4000]\<rparr>"
  by (simp add: get2_def axios_create_def applyRetry_def axiosRetry_def request_def flaky_def
      Let_def retryCondition_def retryDelay_def INTERNAL_SERVER_ERROR_def)

text \<open>
  C1 at a failing input: the breaker variant, asked for two retries on the same server,
  sends the request once and rejects with the first 503.
\<close>

theorem get_never_retries_flaky:
  "fst (get noResponse flaky 0 (RestUtility_new 0) ''https://api.example.com'' ''/data'' []
          True 2 5000) =
     \<lparr>result = Inl (AxiosError None (Some 503)), attempts = 1, delays = []\<rparr>"
  by (simp add: get_fst new_not_open flaky_def)

section \<open>Circuit breaker\<close>

text \<open>
  C3, as stated, fails on two distinct endpoints of one RestUtility object whose breaker
  has no minimum volume: a call to \<open>/b\<close> at time 1 succeeds on a new object, and is rejected
  with \<open>CircuitOpenError\<close> after one failed call to \<open>/a\<close>.
\<close>

theorem endpoints_share_breaker_counterexample:
  "''/a'' \<noteq> ''/b''
   \<and> result (fst (get noResponse oneDown 1 (RestUtility_new 0) ''http://h'' ''/b'' [] False 3 5000))
       = Inr ''ok''
   \<and> result (fst (get noResponse oneDown 1 afterFailure ''http://h'' ''/b'' [] False 3 5000))
       = Inl CircuitOpenError"
  by (simp add: get_fst oneDown_def afterFailure_state refresh_def new_options new_state
      initial_breaker_def)

text \<open>
  C3, amended: a RestUtility object has one breaker for all its endpoints. Every get, post
  and put advances that one state by the outcome of the call, whatever the endpoint; and
  when a get, post or put leaves the breaker open, a later get, post or put to any
  endpoint made before the reset timeout has passed is rejected with \<open>CircuitOpenError\<close>
  and sends nothing.
\<close>

theorem one_breaker_for_all_endpoints:
  "cbState (snd (get isNetErr net now u b e hdrs retry rc t)) =
     breakerCall (cbOptions u)
       (now, \<not> isl (net \<lparr>reqMethod = ''get'', baseURL = b, url = e, data = None,
                             headers = hdrs, timeout = t\<rparr> 0))
       (cbState u)
   \<and> cbState (snd (post isNetErr net now u b e body hdrs retry rc t)) =
     breakerCall (cbOptions u)
       (now, \<not> isl (net \<lparr>reqMethod = ''post'', baseURL = b, url = e, data = Some body,
                             headers = hdrs, timeout = t\<rparr> 0))
       (cbState u)
   \<and> cbState (snd (put isNetErr net now u b e body hdrs retry rc t)) =
     breakerCall (cbOptions u)
       (now, \<not> isl (net \<lparr>reqMethod = ''put'', baseURL = b, url = e, data = Some body,
                             headers = hdrs, timeout = t\<rparr> 0))
       (cbState u)
   \<and> (\<forall>v \<in> {snd (get isNetErr net now u b e hdrs retry rc t),
               snd (post isNetErr net now u b e body hdrs retry rc t),
               snd (put isNetErr net now u b e body hdrs retry rc t)}.
        status (cbState v) = OPEN \<and> now' - openedAt (cbState v) < resetTimeout (cbOptions u) \<longrightarrow>
          fst (get isNetErr' net' now' v b' e' hdrs' retry' rc' t') =
            \<lparr>result = Inl CircuitOpenError, attempts = 0, delays = []\<rparr>
          \<and> fst (post isNetErr' net' now' v b' e' body' hdrs' retry' rc' t') =
            \<lparr>result = Inl CircuitOpenError, attempts = 0, delays = []\<rparr>
          \<and> fst (put isNetErr' net' now' v b' e' body' hdrs' retry' rc' t') =
            \<lparr>result = Inl CircuitOpenError, attempts = 0, delays = []\<rparr>)"
proof -
  have opts: "cbOptions v = cbOptions u"
    if "v \<in> {snd (get isNetErr net now u b e hdrs retry rc t),
              snd (post isNetErr net now u b e body hdrs retry rc t),
              snd (put isNetErr net now u b e body hdrs retry rc t)}" for v
    using that get_state [of isNetErr net now u b e hdrs retry rc t]
    by (auto simp: post_options put_options)
  have "fst (get isNetErr' net' now' v b' e' hdrs' retry' rc' t') =
            \<lparr>result = Inl CircuitOpenError, attempts = 0, delays = []\<rparr>
          \<and> fst (post isNetErr' net' now' v b' e' body' hdrs' retry' rc' t') =
            \<lparr>result = Inl CircuitOpenError, attempts = 0, delays = []\<rparr>
          \<and> fst (put isNetErr' net' now' v b' e' body' hdrs' retry' rc' t') =
            \<lparr>result = Inl CircuitOpenError, attempts = 0, delays = []\<rparr>"
    if "v \<in> {snd (get isNetErr net now u b e hdrs retry rc t),
              snd (post isNetErr net now u b e body hdrs retry rc t),
              snd (put isNetErr net now u b e body hdrs retry rc t)}"
      and "status (cbState v) = OPEN"
      and "now' - openedAt (cbState v) < resetTimeout (cbOptions u)" for v
    using that(2,3) opts [OF that(1)] by (simp add: handlers_reject)
  then show ?thesis
    by (simp only: get_state post_state put_state) blast
qed

text \<open>
  A failed get to \<open>/a\<close> at time 0 opens the breaker of a new object; a post to \<open>/c\<close> at time
  9999 is rejected.
\<close>

theorem one_breaker_for_all_endpoints_witness:
  "status (cbState (snd (get noResponse oneDown 0 (RestUtility_new 0) ''http://h'' ''/a'' []
                           True 2 5000))) = OPEN
   \<and> 9999 - openedAt (cbState (snd (get noResponse oneDown 0 (RestUtility_new 0) ''http://h''
                                       ''/a'' [] True 2 5000)))
       < resetTimeout (cbOptions (RestUtility_new 0))
   \<and> fst (post noResponse oneDown 9999
         (snd (get noResponse oneDown 0 (RestUtility_new 0) ''http://h'' ''/a'' [] True 2 5000))
         ''http://h'' ''/c'' ''{}'' [] False 3 5000) =
       \<lparr>result = Inl CircuitOpenError, attempts = 0, delays = []\<rparr>"
proof -
  have st: "cbState (snd (get noResponse oneDown 0 (RestUtility_new 0) ''http://h'' ''/a'' []
                            True 2 5000)) =
              \<lparr>status = OPEN, rollingFailureCount = 1, rollingTotalCount = 1, openedAt = 0\<rparr>"
    by (simp add: get_state oneDown_def breakerCall_def refresh_def recordOutcome_def
        RestUtility_new_def initial_breaker_def)
  have hyp: "status (cbState (snd (get noResponse oneDown 0 (RestUtility_new 0) ''http://h''
                                     ''/a'' [] True 2 5000))) = OPEN
             \<and> 9999 - openedAt (cbState (snd (get noResponse oneDown 0 (RestUtility_new 0)
                                                 ''http://h'' ''/a'' [] True 2 5000)))
                 < resetTimeout (cbOptions (RestUtility_new 0))"
    by (simp add: st new_options)
  from one_breaker_for_all_endpoints
    [of noResponse oneDown 0 "RestUtility_new 0" "''http://h''" "''/a''" "[]" True 2 5000
      "''{}''" 9999 noResponse oneDown "''http://h''" "''/c''" "[]" False 3 5000 "''{}''"]
  have "\<forall>v \<in> {snd (get noResponse oneDown 0 (RestUtility_new 0) ''http://h'' ''/a'' [] True 2 5000),
              snd (post noResponse oneDown 0 (RestUtility_new 0) ''http://h'' ''/a'' ''{}'' [] True 2 5000),
              snd (put noResponse oneDown 0 (RestUtility_new 0) ''http://h'' ''/a'' ''{}'' [] True 2 5000)}.
        status (cbState v) = OPEN
        \<and> 9999 - openedAt (cbState v) < resetTimeout (cbOptions (RestUtility_new 0)) \<longrightarrow>
          fst (post noResponse oneDown 9999 v ''http://h'' ''/c'' ''{}'' [] False 3 5000) =
            \<lparr>result = Inl CircuitOpenError, attempts = 0, delays = []\<rparr>"
    by blast
  with hyp show ?thesis by blast
qed

text \<open>
  C5: over every sequence of calls from the initial, closed state, a call that finds the
  breaker closed and leaves it open leaves counters with a total that has reached the
  minimum volume and with failures / total at least the threshold (50 percent in
  RestUtility).
\<close>

theorem opens_only_at_threshold:
  "\<forall>i<length cs.
     status (breakerRun opts initial_breaker cs ! i) = CLOSED \<and>
     status (breakerRun opts initial_breaker cs ! Suc i) = OPEN \<longrightarrow>
     minimumVolume opts \<le> rollingTotalCount (breakerRun opts initial_breaker cs ! Suc i)
     \<and> 0 < rollingTotalCount (breakerRun opts initial_breaker cs ! Suc i)
     \<and> errorThresholdPercentage opts * rollingTotalCount (breakerRun opts initial_breaker cs ! Suc i)
         \<le> 100 * rollingFailureCount (breakerRun opts initial_breaker cs ! Suc i)"
  using breakerCall_trips by (simp add: breakerRun_step)

theorem opens_only_at_threshold_witness:
  "(2::nat) < length [(0::int, True), (1, False), (2, False)]
   \<and> status (breakerRun (cbOptions (RestUtility_new 3)) initial_breaker
               [(0, True), (1, False), (2, False)] ! 2) = CLOSED
   \<and> status (breakerRun (cbOptions (RestUtility_new 3)) initial_breaker
               [(0, True), (1, False), (2, False)] ! Suc 2) = OPEN
   \<and> minimumVolume (cbOptions (RestUtility_new 3))
       \<le> rollingTotalCount (breakerRun (cbOptions (RestUtility_new 3)) initial_breaker
               [(0, True), (1, False), (2, False)] ! Suc 2)
   \<and> errorThresholdPercentage (cbOptions (RestUtility_new 3)) *
        rollingTotalCount (breakerRun (cbOptions (RestUtility_new 3)) initial_breaker
               [(0, True), (1, False), (2, False)] ! Suc 2)
       \<le> 100 * rollingFailureCount (breakerRun (cbOptions (RestUtility_new 3)) initial_breaker
               [(0, True), (1, False), (2, False)] ! Suc 2)"
  using opens_only_at_threshold
    [of "[(0, True), (1, False), (2, False)]" "cbOptions (RestUtility_new 3)"]
  by (simp add: breakerCall_def refresh_def recordOutcome_def RestUtility_new_def
      initial_breaker_def numeral_2_eq_2 numeral_3_eq_3)

text \<open>
  C6: while the breaker is open and the reset timeout has not passed since \<open>openedAt\<close>, a
  get, post or put is rejected with \<open>CircuitOpenError\<close> and the request is not sent; once
  the reset timeout has passed the breaker is half-open.
\<close>

theorem open_breaker_rejects:
  "status (cbState u) = OPEN \<longrightarrow>
     (now - openedAt (cbState u) < resetTimeout (cbOptions u) \<longrightarrow>
        fst (get isNetErr net now u b e hdrs retry rc t) =
          \<lparr>result = Inl CircuitOpenError, attempts = 0, delays = []\<rparr>
      \<and> fst (post isNetErr net now u b e body hdrs retry rc t) =
          \<lparr>result = Inl CircuitOpenError, attempts = 0, delays = []\<rparr>
      \<and> fst (put isNetErr net now u b e body hdrs retry rc t) =
          \<lparr>result = Inl CircuitOpenError, attempts = 0, delays = []\<rparr>)
   \<and> (resetTimeout (cbOptions u) \<le> now - openedAt (cbState u) \<longrightarrow>
        status (refresh (cbOptions u) now (cbState u)) = HALF_OPEN)"
  by (simp add: get_fst post_fst put_fst refresh_def)

theorem open_breaker_rejects_witness:
  "status (cbState afterFailure) = OPEN
   \<and> 9999 - openedAt (cbState afterFailure) < resetTimeout (cbOptions afterFailure)
   \<and> fst (get noResponse oneDown 9999 afterFailure ''http://h'' ''/b'' [] False 3 5000) =
       \<lparr>result = Inl CircuitOpenError, attempts = 0, delays = []\<rparr>
   \<and> resetTimeout (cbOptions afterFailure) \<le> 10000 - openedAt (cbState afterFailure)
   \<and> status (refresh (cbOptions afterFailure) 10000 (cbState afterFailure)) = HALF_OPEN"
  using open_breaker_rejects
      [of afterFailure 9999 noResponse oneDown "''http://h''" "''/b''" "[]" False 3 5000]
    open_breaker_rejects [of afterFailure 10000]
  by (simp add: afterFailure_state RestUtility_new_def)

section \<open>Lock manager\<close>

text \<open>
  C2: \<open>acquire\<close> returns a lease exactly when the number of accepting authorities is at
  least \<open>N div 2 + 1\<close> and \<open>ttl - elapsed - margin\<close> is positive. Otherwise it returns
  \<open>QuorumNotReachedError\<close>, issues \<open>release\<close> to exactly the authorities that accepted, and
  none of them holds a record for the key afterwards.
\<close>

theorem acquire_quorum:
  "((\<exists>l. answer (acquire auths key token ttl start elapsed margin) = Inr l) \<longleftrightarrow>
      length auths div 2 + 1 \<le> accepting auths key token ttl start \<and> 0 < ttl - elapsed - margin)
   \<and> (\<not> (length auths div 2 + 1 \<le> accepting auths key token ttl start
          \<and> 0 < ttl - elapsed - margin) \<longrightarrow>
        answer (acquire auths key token ttl start elapsed margin) = Inl QuorumNotReachedError
        \<and> releasedAt (acquire auths key token ttl start elapsed margin) =
            filter (\<lambda>i. fst (tryAcquire key token ttl start (auths ! i))) [0..<length auths]
        \<and> (\<forall>i<length auths. fst (tryAcquire key token ttl start (auths ! i)) \<longrightarrow>
              records (authorities (acquire auths key token ttl start elapsed margin) ! i) key
                = None))"
  by (simp add: acquire_eq released_gone)

text \<open>
  Three authorities, one of them unreachable: with two acceptances the lease is granted;
  with one, the attempt fails and the accepting authority, at position 0, is released.
\<close>

theorem acquire_quorum_witness:
  "length [free, free, down] div 2 + 1 \<le> accepting [free, free, down] ''k'' ''me'' 30000 0
   \<and> (0::int) < 30000 - 12 - 300
   \<and> (\<exists>l. answer (acquire [free, free, down] ''k'' ''me'' 30000 0 12 300) = Inr l)
   \<and> accepting [free, taken, down] ''k'' ''me'' 30000 0 = 1
   \<and> answer (acquire [free, taken, down] ''k'' ''me'' 30000 0 12 300) = Inl QuorumNotReachedError
   \<and> releasedAt (acquire [free, taken, down] ''k'' ''me'' 30000 0 12 300) = [0]
   \<and> records (authorities (acquire [free, taken, down] ''k'' ''me'' 30000 0 12 300) ! 0) ''k''
       = None"
proof -
  have a: "accepting [free, free, down] ''k'' ''me'' 30000 0 = 2"
    by (simp add: accepting_def tryAcquire_def free_def down_def)
  have b: "accepting [free, taken, down] ''k'' ''me'' 30000 0 = 1"
    by (simp add: accepting_def tryAcquire_def free_def down_def taken_def)
  have q: "length [free, free, down] div 2 + 1 \<le> accepting [free, free, down] ''k'' ''me'' 30000 0
           \<and> (0::int) < 30000 - 12 - 300"
    by (simp add: a)
  have n: "\<not> (length [free, taken, down] div 2 + 1
                \<le> accepting [free, taken, down] ''k'' ''me'' 30000 0
              \<and> (0::int) < 30000 - 12 - 300)"
    by (simp add: b)
  have first: "fst (tryAcquire ''k'' ''me'' 30000 0 ([free, taken, down] ! 0))"
    by (simp add: tryAcquire_def free_def)
  have idx: "filter (\<lambda>i. fst (tryAcquire ''k'' ''me'' 30000 0 ([free, taken, down] ! i)))
               [0..<length [free, taken, down]] = [0]"
    by (simp add: upt_rec tryAcquire_def free_def down_def taken_def)
  from q acquire_quorum [of "[free, free, down]" "''k''" "''me''" 30000 0 12 300]
  have lease: "\<exists>l. answer (acquire [free, free, down] ''k'' ''me'' 30000 0 12 300) = Inr l"
    by blast
  from n acquire_quorum [of "[free, taken, down]" "''k''" "''me''" 30000 0 12 300]
  have failed:
    "answer (acquire [free, taken, down] ''k'' ''me'' 30000 0 12 300) = Inl QuorumNotReachedError"
    "releasedAt (acquire [free, taken, down] ''k'' ''me'' 30000 0 12 300) =
       filter (\<lambda>i. fst (tryAcquire ''k'' ''me'' 30000 0 ([free, taken, down] ! i)))
         [0..<length [free, taken, down]]"
    "\<forall>i<length [free, taken, down].
       fst (tryAcquire ''k'' ''me'' 30000 0 ([free, taken, down] ! i)) \<longrightarrow>
       records (authorities (acquire [free, taken, down] ''k'' ''me'' 30000 0 12 300) ! i) ''k''
         = None"
    by blast+
  from failed(3) first
  have "records (authorities (acquire [free, taken, down] ''k'' ''me'' 30000 0 12 300) ! 0) ''k''
          = None"
    by simp
  with q lease b failed(1) failed(2) idx show ?thesis by simp
qed

section \<open>OrderService\<close>

text \<open>
  C8: when \<open>acquire\<close> resolved with a lock, \<open>createOrder\<close> calls \<open>release\<close> on that lock, once,
  whether the work succeeded or threw; when \<open>acquire\<close> rejected, it calls no \<open>release\<close>.
\<close>

theorem createOrder_releases_iff_acquired:
  "(\<forall>l. acquireLock [''order_lock:'' @ orderId] 30000 = Inr l \<longrightarrow>
        filter isRelease (snd (createOrder acquireLock work release orderId)) = [ReleaseCall l])
   \<and> ((\<exists>err. acquireLock [''order_lock:'' @ orderId] 30000 = Inl err) \<longrightarrow>
        filter isRelease (snd (createOrder acquireLock work release orderId)) = [])"
  by (auto simp: createOrder_def processOrder_def Let_def split: sum.splits prod.splits)

theorem createOrder_releases_iff_acquired_witness:
  "acquireOk [''order_lock:'' @ ''42''] 30000 = Inr theLock
   \<and> isl (fst (createOrder acquireOk workFails releaseOk ''42''))
   \<and> filter isRelease (snd (createOrder acquireOk workFails releaseOk ''42''))
       = [ReleaseCall theLock]
   \<and> (\<exists>err. acquireFails [''order_lock:'' @ ''42''] 30000 = Inl err)
   \<and> filter isRelease (snd (createOrder acquireFails workOk releaseOk ''42'')) = []"
  using createOrder_releases_iff_acquired [of acquireOk "''42''" workFails releaseOk]
    createOrder_releases_iff_acquired [of acquireFails "''42''" workOk releaseOk]
  by (simp add: acquireOk_def acquireFails_def createOrder_def processOrder_def workFails_def
      releaseOk_def)

section \<open>Error propagation\<close>

text \<open>
  C9, as stated, fails in \<open>createOrder\<close>: a rejected acquisition and a client error of the
  protected work surface as the same error, which says nothing of the cause.
\<close>

theorem createOrder_same_error_counterexample:
  "acquireFails [''order_lock:42''] 30000 = Inl QuorumNotReachedError
   \<and> workFails ''42'' = Inl (AxiosError None (Some 400))
   \<and> fst (createOrder acquireFails workOk releaseOk ''42'') = Inl (Error ''Could not create order'')
   \<and> fst (createOrder acquireOk workFails releaseOk ''42'') = Inl (Error ''Could not create order'')"
  by (simp add: createOrder_def processOrder_def acquireFails_def acquireOk_def workFails_def
      workOk_def releaseOk_def)

text \<open>
  C9, amended: \<open>get\<close> rejects with the very error of the breaker or of the single attempt, so
  that error keeps its class. \<open>createOrder\<close> rejects whenever the acquisition or the work
  failed, and unless \<open>release\<close> itself fails the error is always the same
  \<open>Error(''Could not create order'')\<close>; the error that caused the failure is logged, with
  the message \<open>Failed to create order\<close>, and is not part of what is thrown.
\<close>

theorem terminal_errors_surface:
  "result (fst (get isNetErr net now u b e hdrs retry rc t)) =
     (if status (refresh (cbOptions u) now (cbState u)) = OPEN then Inl CircuitOpenError
      else net \<lparr>reqMethod = ''get'', baseURL = b, url = e, data = None, headers = hdrs,
                 timeout = t\<rparr> 0)
   \<and> (isl (acquireLock [''order_lock:'' @ orderId] 30000) \<or> isl (work orderId) \<longrightarrow>
        isl (fst (createOrder acquireLock work release orderId))
        \<and> ((\<forall>l err. release l \<noteq> Inl err) \<longrightarrow>
             fst (createOrder acquireLock work release orderId)
               = Inl (Error ''Could not create order'')))
   \<and> (\<forall>err. acquireLock [''order_lock:'' @ orderId] 30000 = Inl err \<longrightarrow>
         LogError (''Failed to create order '' @ orderId @ '':'') err
           \<in> set (snd (createOrder acquireLock work release orderId)))
   \<and> (\<forall>err. \<not> isl (acquireLock [''order_lock:'' @ orderId] 30000) \<and> work orderId = Inl err \<longrightarrow>
         LogError (''Failed to create order '' @ orderId @ '':'') err
           \<in> set (snd (createOrder acquireLock work release orderId)))"
  by (auto simp: get_fst createOrder_def processOrder_def Let_def split: sum.splits prod.splits)

theorem terminal_errors_surface_witness:
  "isl (acquireFails [''order_lock:'' @ ''42''] 30000)
   \<and> (\<forall>l err. releaseOk l \<noteq> Inl err)
   \<and> fst (createOrder acquireFails workOk releaseOk ''42'') = Inl (Error ''Could not create order'')
   \<and> LogError (''Failed to create order '' @ ''42'' @ '':'') QuorumNotReachedError
       \<in> set (snd (createOrder acquireFails workOk releaseOk ''42''))
   \<and> \<not> isl (acquireOk [''order_lock:'' @ ''42''] 30000)
   \<and> workFails ''42'' = Inl (AxiosError None (Some 400))
   \<and> LogError (''Failed to create order '' @ ''42'' @ '':'') (AxiosError None (Some 400))
       \<in> set (snd (createOrder acquireOk workFails releaseOk ''42''))
   \<and> result (fst (get noResponse oneDown 0 (RestUtility_new 0) ''http://h'' ''/a'' [] False 3 5000))
       = Inl (AxiosError None (Some 500))"
proof -
  have a: "acquireFails [''order_lock:'' @ ''42''] 30000 = Inl QuorumNotReachedError"
    by (simp add: acquireFails_def)
  have b: "\<not> isl (acquireOk [''order_lock:'' @ ''42''] 30000)
           \<and> workFails ''42'' = Inl (AxiosError None (Some 400))"
    by (simp add: acquireOk_def workFails_def)
  have r: "\<forall>l err. releaseOk l \<noteq> Inl err"
    by (simp add: releaseOk_def)
  note t1 = terminal_errors_surface
    [of noResponse oneDown 0 "RestUtility_new 0" "''http://h''" "''/a''" "[]" False 3 5000
      acquireFails "''42''" workOk releaseOk]
  note t2 = terminal_errors_surface
    [of noResponse oneDown 0 "RestUtility_new 0" "''http://h''" "''/a''" "[]" False 3 5000
      acquireOk "''42''" workFails releaseOk]
  from t1 a r
  have c1: "fst (createOrder acquireFails workOk releaseOk ''42'')
              = Inl (Error ''Could not create order'')"
    and c2: "LogError (''Failed to create order '' @ ''42'' @ '':'') QuorumNotReachedError
              \<in> set (snd (createOrder acquireFails workOk releaseOk ''42''))"
    by simp_all
  from t2 b
  have c3: "LogError (''Failed to create order '' @ ''42'' @ '':'') (AxiosError None (Some 400))
              \<in> set (snd (createOrder acquireOk workFails releaseOk ''42''))"
    by blast
  from t1
  have c4: "result (fst (get noResponse oneDown 0 (RestUtility_new 0) ''http://h'' ''/a'' []
                           False 3 5000)) = Inl (AxiosError None (Some 500))"
    by (simp add: new_not_open oneDown_def)
  from a b r c1 c2 c3 c4 show ?thesis by simp
qed

end
